theory Spec2Isabelle
  imports Main "HOL-Library.AList"
begin

section \<open>The token cache of \<open>auth_callback_factory\<close>\<close>

text \<open>
  \<open>main.py\<close>, lines 30 to 53. \<open>auth_callback_factory(scope)\<close> creates a local variable
  \<open>auth_token = None\<close> and returns the closure \<open>auth_callback\<close>, which reads and assigns that
  variable through \<open>nonlocal\<close>. The model keeps every such closure variable in an explicit
  store of cells: a closure is its captured scope and the address of its cell.
\<close>

record access_token =
  token :: string
  expires_on :: int

text \<open>
  What \<open>credential.get_token(scope)\<close> does when it is called: it returns an access token,
  raises \<open>ClientAuthenticationError\<close> (whose \<open>messages\<close> attribute may be missing, hence the
  option read by \<open>getattr(cae, "messages", [])\<close>), or raises something else, which the
  \<open>except\<close> clause does not catch.
\<close>

datatype issuer_outcome =
    Issued access_token
  | ClientAuthenticationError "string list option"
  | OtherException string

datatype error =
    FunctionExecutionException string
  | Uncaught string

text \<open>
  The state of the process that matters here: the closure cells allocated so far (a cell never
  written reads \<open>None\<close>), the next free address, and the log of the scopes for which the
  credential issuer was asked, oldest first.
\<close>

record world =
  cells :: "nat \<Rightarrow> access_token option"
  next_cell :: nat
  issuer_calls :: "string list"

record closure =
  cb_scope :: string
  cb_cell :: nat

definition no_tokens :: "nat \<Rightarrow> access_token option" where
  "no_tokens a = None"

definition initial_world :: world where
  "initial_world = \<lparr>cells = no_tokens, next_cell = 0, issuer_calls = []\<rparr>"

text \<open>An issuer that answers every request in the same way.\<close>

definition always :: "issuer_outcome \<Rightarrow> string \<Rightarrow> issuer_outcome" where
  "always outcome scope = outcome"

text \<open>Python's \<open>sep.join(xs)\<close>.\<close>

fun str_join :: "string \<Rightarrow> string list \<Rightarrow> string" where
  "str_join sep [] = []"
| "str_join sep [x] = x"
| "str_join sep (x # y # ys) = x @ sep @ str_join sep (y # ys)"

definition auth_callback_factory :: "string \<Rightarrow> world \<Rightarrow> closure \<times> world" where
  "auth_callback_factory scope w =
     (\<lparr>cb_scope = scope, cb_cell = next_cell w\<rparr>,
      w\<lparr>cells := (cells w)(next_cell w := None), next_cell := Suc (next_cell w)\<rparr>)"

text \<open>
  Lines 41 to 51: the body of the \<open>if\<close> and the final \<open>return auth_token.token\<close> after it.
  The assignment to \<open>auth_token\<close> happens only when \<open>get_token\<close> returns.
\<close>

definition fetch_token :: "closure \<Rightarrow> (string \<Rightarrow> issuer_outcome) \<Rightarrow> world \<Rightarrow> (error + string) \<times> world" where
  "fetch_token cb get_token w =
     (let w' = w\<lparr>issuer_calls := issuer_calls w @ [cb_scope cb]\<rparr> in
      case get_token (cb_scope cb) of
        Issued auth_token \<Rightarrow>
          (Inr (token auth_token), w'\<lparr>cells := (cells w')(cb_cell cb := Some auth_token)\<rparr>)
      | ClientAuthenticationError messages \<Rightarrow>
          (let err_messages = (case messages of None \<Rightarrow> [] | Some ms \<Rightarrow> ms) in
           (Inl (FunctionExecutionException
                  (''Failed to retrieve the client auth token with messages: ''
                    @ str_join '' '' err_messages)), w'))
      | OtherException e \<Rightarrow> (Inl (Uncaught e), w'))"

text \<open>
  Lines 37 to 51. The condition \<open>not auth_token or auth_token.expires_on < current_utc_timestamp\<close>
  is the case distinction: an access token object is truthy, so \<open>not auth_token\<close> holds exactly
  for \<open>None\<close>. The current time is the whole-second timestamp read at line 38.
\<close>

definition auth_callback :: "closure \<Rightarrow> int \<Rightarrow> (string \<Rightarrow> issuer_outcome) \<Rightarrow> world \<Rightarrow> (error + string) \<times> world" where
  "auth_callback cb current_utc_timestamp get_token w =
     (case cells w (cb_cell cb) of
        None \<Rightarrow> fetch_token cb get_token w
      | Some auth_token \<Rightarrow>
          if expires_on auth_token < current_utc_timestamp then fetch_token cb get_token w
          else (Inr (token auth_token), w))"

section \<open>Function metadata and the tool schema\<close>

text \<open>
  The descriptors that the kernel hands to the settings callback (the \<open>f\<close> and \<open>p\<close> of lines
  104 to 122). The source reads \<open>f.name\<close>, \<open>f.description\<close>, \<open>f.parameters\<close>, \<open>p.name\<close>,
  \<open>p.type_\<close>, \<open>p.description\<close> and \<open>p.is_required\<close>; descriptions, the type tag and the
  required flag may be \<open>None\<close>.
\<close>

record kernel_parameter_metadata =
  p_name :: string
  p_description :: "string option"
  p_type :: "string option"
  p_is_required :: "bool option"

record kernel_function_metadata =
  f_name :: string
  f_plugin_name :: string
  f_description :: "string option"
  f_parameters :: "kernel_parameter_metadata list"

text \<open>The values that the callback builds: strings, lists and dicts in insertion order.\<close>

datatype json =
    JString string
  | JArray "json list"
  | JObject "(string \<times> json) list"

definition python_to_json_schema_type :: "(string \<times> string) list" where
  "python_to_json_schema_type =
     [(''str'', ''string''), (''int'', ''integer''), (''float'', ''number''),
      (''bool'', ''boolean''), (''list'', ''array''), (''dict'', ''object'')]"

text \<open>\<open>python_to_json_schema_type.get(p.type_, "string")\<close>; \<open>None\<close> is not a key of the dict.\<close>

definition json_schema_type :: "string option \<Rightarrow> string" where
  "json_schema_type tag =
     (case tag of
        None \<Rightarrow> ''string''
      | Some t \<Rightarrow> (case map_of python_to_json_schema_type t of None \<Rightarrow> ''string'' | Some j \<Rightarrow> j))"

text \<open>\<open>description or ""\<close>: \<open>None\<close> and the empty string are both falsy.\<close>

definition or_empty :: "string option \<Rightarrow> string" where
  "or_empty description = (case description of None \<Rightarrow> [] | Some d \<Rightarrow> if d = [] then [] else d)"

text \<open>The truth value of \<open>p.is_required\<close> in the filter of line 118.\<close>

definition truthy :: "bool option \<Rightarrow> bool" where
  "truthy b = (case b of None \<Rightarrow> False | Some v \<Rightarrow> v)"

definition param_schema :: "kernel_parameter_metadata \<Rightarrow> json" where
  "param_schema p =
     JObject [(''type'', JString (json_schema_type (p_type p))),
              (''description'', JString (or_empty (p_description p)))]"

text \<open>
  The dict comprehension of lines 111 to 117. Assigning a key that is already present keeps
  its position and replaces its value, which is what \<open>AList.update\<close> does.
\<close>

definition properties_of :: "kernel_parameter_metadata list \<Rightarrow> (string \<times> json) list" where
  "properties_of parameters =
     foldl (\<lambda>d p. AList.update (p_name p) (param_schema p) d) [] parameters"

text \<open>Line 118.\<close>

definition required_of :: "kernel_parameter_metadata list \<Rightarrow> string list" where
  "required_of parameters = [p_name p. p \<leftarrow> parameters, truthy (p_is_required p)]"

text \<open>Lines 104 to 121: the entry built for one function.\<close>

definition tool_schema :: "kernel_function_metadata \<Rightarrow> json" where
  "tool_schema f =
     JObject
       [(''type'', JString ''function''),
        (''function'', JObject
           [(''name'', JString (f_name f)),
            (''description'', JString (or_empty (f_description f))),
            (''parameters'', JObject
               [(''type'', JString ''object''),
                (''properties'', JObject (properties_of (f_parameters f))),
                (''required'', JArray (map JString (required_of (f_parameters f))))])])]"

text \<open>Reading a key of a dict; \<open>None\<close> when the value is no dict or has no such key.\<close>

fun json_get :: "json \<Rightarrow> string \<Rightarrow> json option" where
  "json_get (JObject kvs) k = map_of kvs k"
| "json_get (JString s) k = None"
| "json_get (JArray xs) k = None"

record execution_settings =
  service_id :: string
  tool_choice :: string
  tools :: "json list option"

text \<open>
  The configuration object passed to the callback. \<open>getattr(config, "available_functions", [])\<close>
  reads the attribute and takes the empty list when the object has none (\<open>None\<close> here).
\<close>

record function_call_choice_configuration =
  available_functions :: "kernel_function_metadata list option"

text \<open>
  The lambda of lines 100 to 124: \<open>setattr(settings, "tools", [...])\<close>. Its third argument
  (\<open>type_\<close> in the source) is not used.
\<close>

definition update_settings_callback ::
  "function_call_choice_configuration \<Rightarrow> execution_settings \<Rightarrow> 'a \<Rightarrow> execution_settings" where
  "update_settings_callback config settings choice_type =
     settings\<lparr>tools := Some [tool_schema f.
        f \<leftarrow> (case available_functions config of None \<Rightarrow> [] | Some fs \<Rightarrow> fs)]\<rparr>"

section \<open>The kernel and the function choice behaviour\<close>

text \<open>
  The kernel is the list of the registered functions in registration order, each carrying the
  name of its plugin. \<open>kernel.add_plugin(plugin, name)\<close> registers the functions of a plugin
  under \<open>name\<close>; \<open>kernel.add_function(plugin_name, function_name, prompt)\<close> registers one prompt
  function, whose parameters the library derives from the prompt template.
\<close>

type_synonym kernel = "kernel_function_metadata list"

definition add_plugin :: "kernel_function_metadata list \<Rightarrow> string \<Rightarrow> kernel \<Rightarrow> kernel" where
  "add_plugin plugin plugin_name kern = kern @ [f\<lparr>f_plugin_name := plugin_name\<rparr>. f \<leftarrow> plugin]"

definition add_function ::
  "string \<Rightarrow> string \<Rightarrow> kernel_parameter_metadata list \<Rightarrow> kernel \<Rightarrow> kernel_function_metadata \<times> kernel" where
  "add_function plugin_name function_name prompt_parameters kern =
     (let f = \<lparr>f_name = function_name, f_plugin_name = plugin_name, f_description = None,
               f_parameters = prompt_parameters\<rparr>
      in (f, kern @ [f]))"

record function_choice_behavior =
  auto_invoke :: bool
  filters :: "(string \<times> string list) list"

definition Auto :: "bool \<Rightarrow> (string \<times> string list) list \<Rightarrow> function_choice_behavior" where
  "Auto auto_invoke_flag filters_dict = \<lparr>auto_invoke = auto_invoke_flag, filters = filters_dict\<rparr>"

text \<open>
  Modelled from the spec: the function listing behind \<open>FunctionChoiceBehavior.configure\<close>
  belongs to the \<open>semantic_kernel\<close> library and is not in the source tree. Section 4.2 of the
  specification: "filter out any function whose owning plugin name is in
  \<open>excluded_plugins\<close>"; section 4.3, step 4: the schema is built "over all currently
  registered functions except those in excluded plugins".
\<close>

definition get_list_of_function_metadata ::
  "(string \<times> string list) list \<Rightarrow> kernel \<Rightarrow> kernel_function_metadata list" where
  "get_list_of_function_metadata filters_dict kern =
     (let excluded_plugins = (case map_of filters_dict ''excluded_plugins'' of
                                None \<Rightarrow> [] | Some ps \<Rightarrow> ps)
      in [f. f \<leftarrow> kern, f_plugin_name f \<notin> set excluded_plugins])"

text \<open>
  Modelled from the spec: \<open>configure\<close> of the \<open>semantic_kernel\<close> library, not in the source
  tree; it calls the callback of the source on the listing above.
\<close>

definition configure ::
  "function_choice_behavior \<Rightarrow> kernel \<Rightarrow>
   (function_call_choice_configuration \<Rightarrow> execution_settings \<Rightarrow> string \<Rightarrow> execution_settings) \<Rightarrow>
   execution_settings \<Rightarrow> execution_settings" where
  "configure behavior kern callback settings =
     callback \<lparr>available_functions = Some (get_list_of_function_metadata (filters behavior) kern)\<rparr>
       settings ''auto''"

section \<open>The request handlers\<close>

text \<open>
  During \<open>kernel.invoke\<close> the libraries call the two closures: the chat completion client calls
  its \<open>ad_token_provider\<close>, the sessions tool its \<open>auth_callback\<close>. Which closure is called, at
  what time, how often, and what the credential issuer answers then, is decided outside the
  source; the model takes it as a list of invocations.
\<close>

datatype credential_use = LLMCredential | ToolCredential

datatype invocation = Invocation credential_use int "string \<Rightarrow> issuer_outcome"

fun run_invocations ::
  "closure \<Rightarrow> closure \<Rightarrow> invocation list \<Rightarrow> world \<Rightarrow> (error + string) list \<times> world" where
  "run_invocations ad_token_provider auth_cb [] w = ([], w)"
| "run_invocations ad_token_provider auth_cb (Invocation use now get_token # rest) w =
     (let (r, w1) = auth_callback
                      (case use of LLMCredential \<Rightarrow> ad_token_provider | ToolCredential \<Rightarrow> auth_cb)
                      now get_token w;
          (rs, w2) = run_invocations ad_token_provider auth_cb rest w1
      in (r # rs, w2))"

text \<open>
  What one request takes from outside the source: the functions that \<open>SessionsPythonTool\<close>
  exposes, the parameters that the library derives for the prompt function, the calls of the
  two closures during \<open>kernel.invoke\<close>, and the outcome of \<open>kernel.invoke\<close> (the answer as text,
  or the exception it raises).
\<close>

record chat_environment =
  env_sessions_tool :: "kernel_function_metadata list"
  env_prompt_parameters :: "kernel_parameter_metadata list"
  env_invocations :: "invocation list"
  env_answer :: "error + string"

record chat_result =
  ch_kernel :: kernel
  ch_chat_function :: kernel_function_metadata
  ch_ad_token_provider :: closure
  ch_auth_callback :: closure
  ch_settings :: execution_settings
  ch_tokens :: "(error + string) list"
  ch_response :: "error + json"

text \<open>Lines 61 to 143.\<close>

definition chat :: "string \<Rightarrow> chat_environment \<Rightarrow> world \<Rightarrow> chat_result \<times> world" where
  "chat message env w =
     (let kernel0 = [];
          sid = ''sessions-tool'';
          (ad_token_provider, w1) =
             auth_callback_factory ''https://cognitiveservices.azure.com/.default'' w;
          (auth_cb, w2) = auth_callback_factory ''https://dynamicsessions.io/.default'' w1;
          kernel1 = add_plugin (env_sessions_tool env) ''SessionsTool'' kernel0;
          (chat_function, kernel2) =
             add_function ''ChatBot'' ''Chat'' (env_prompt_parameters env) kernel1;
          req_settings = \<lparr>service_id = sid, tool_choice = ''auto'', tools = None\<rparr>;
          filter_dict = [(''excluded_plugins'', [''ChatBot''])];
          req_settings' =
             configure (Auto True filter_dict) kernel2 update_settings_callback req_settings;
          (token_results, w3) =
             run_invocations ad_token_provider auth_cb (env_invocations env) w2;
          response = (case env_answer env of
                        Inl e \<Rightarrow> Inl e
                      | Inr answer \<Rightarrow> Inr (JObject [(''output'', JString answer)]))
      in (\<lparr>ch_kernel = kernel2, ch_chat_function = chat_function,
            ch_ad_token_provider = ad_token_provider, ch_auth_callback = auth_cb,
            ch_settings = req_settings', ch_tokens = token_results, ch_response = response\<rparr>,
          w3))"

text \<open>
  Lines 56 to 58. \<open>RedirectResponse(url)\<close> is the response class of Starlette that FastAPI
  re-exports; its constructor is \<open>__init__(self, url, status_code=307, ...)\<close> and sets the
  \<open>location\<close> header to the url. The source passes no status code.
\<close>

record response =
  status_code :: nat
  location :: string

definition RedirectResponse :: "string \<Rightarrow> nat option \<Rightarrow> response" where
  "RedirectResponse url status =
     \<lparr>status_code = (case status of None \<Rightarrow> 307 | Some c \<Rightarrow> c), location = url\<rparr>"

definition root :: response where
  "root = RedirectResponse ''/docs'' None"

datatype endpoint = RootEndpoint | ChatEndpoint

text \<open>The routes registered by \<open>@app.get("/")\<close> and \<open>@app.get("/chat")\<close>.\<close>

definition app_routes :: "((string \<times> string) \<times> endpoint) list" where
  "app_routes = [((''GET'', ''/''), RootEndpoint), ((''GET'', ''/chat''), ChatEndpoint)]"

text \<open>Following a list of keys into nested dicts.\<close>

fun json_path :: "json \<Rightarrow> string list \<Rightarrow> json option" where
  "json_path j [] = Some j"
| "json_path j (k # ks) = (case json_get j k of None \<Rightarrow> None | Some j' \<Rightarrow> json_path j' ks)"

section \<open>Concrete inputs\<close>

definition sample_closure :: closure where
  "sample_closure = \<lparr>cb_scope = ''https://dynamicsessions.io/.default'', cb_cell = 0\<rparr>"

definition other_closure :: closure where
  "other_closure = \<lparr>cb_scope = ''https://cognitiveservices.azure.com/.default'', cb_cell = 1\<rparr>"

definition old_token :: access_token where
  "old_token = \<lparr>token = ''old'', expires_on = 100\<rparr>"

definition new_token :: access_token where
  "new_token = \<lparr>token = ''new'', expires_on = 200\<rparr>"

text \<open>A world whose cell 0 holds the given token.\<close>

definition holding :: "access_token \<Rightarrow> world" where
  "holding t = \<lparr>cells = no_tokens(0 := Some t), next_cell = 1, issuer_calls = []\<rparr>"

definition execute_code :: kernel_function_metadata where
  "execute_code =
     \<lparr>f_name = ''execute_code'', f_plugin_name = ''SessionsTool'',
      f_description = Some ''Executes the provided Python code'',
      f_parameters = [\<lparr>p_name = ''code'', p_description = None, p_type = Some ''str'',
                       p_is_required = Some True\<rparr>]\<rparr>"

definition list_files :: kernel_function_metadata where
  "list_files =
     \<lparr>f_name = ''list_files'', f_plugin_name = ''SessionsTool'', f_description = None,
      f_parameters = []\<rparr>"

definition chat_entry :: kernel_function_metadata where
  "chat_entry =
     \<lparr>f_name = ''Chat'', f_plugin_name = ''ChatBot'', f_description = None, f_parameters = []\<rparr>"

text \<open>
  Two requests. In each the chat completion client asks its token provider once; the second
  request comes ten seconds after the first, well before the first token expires.
\<close>

definition first_request :: chat_environment where
  "first_request =
     \<lparr>env_sessions_tool = [execute_code], env_prompt_parameters = [],
      env_invocations = [Invocation LLMCredential 10 (always (Issued \<lparr>token = ''t1'', expires_on = 3600\<rparr>))],
      env_answer = Inr ''4''\<rparr>"


text \<open>
  Two getters for one scope, made by two calls of \<open>auth_callback_factory\<close> as two requests
  make them (lines 68 and 76 run in every request). The first getter is called at time 10 and
  the issuer hands out a token that expires at 3600; the second getter is made afterwards and
  called at time 20.
\<close>

definition first_getter :: "closure \<times> world" where
  "first_getter = auth_callback_factory ''https://dynamicsessions.io/.default'' initial_world"

definition first_getter_call :: "(error + string) \<times> world" where
  "first_getter_call =
     auth_callback (fst first_getter) 10
       (always (Issued \<lparr>token = ''t1'', expires_on = 3600\<rparr>)) (snd first_getter)"

definition second_getter :: "closure \<times> world" where
  "second_getter =
     auth_callback_factory ''https://dynamicsessions.io/.default'' (snd first_getter_call)"

definition second_getter_call :: "(error + string) \<times> world" where
  "second_getter_call =
     auth_callback (fst second_getter) 20
       (always (Issued \<lparr>token = ''t2'', expires_on = 3620\<rparr>)) (snd second_getter)"

section \<open>Properties of the token cache\<close>

lemma fetch_token_issuer_calls:
  "issuer_calls (snd (fetch_token cb get_token w)) = issuer_calls w @ [cb_scope cb]"
  by (simp add: fetch_token_def Let_def split: issuer_outcome.split)



lemma fetch_token_Inr:
  "fetch_token cb get_token w = (Inr v, w') \<Longrightarrow>
   \<exists>t. get_token (cb_scope cb) = Issued t \<and> token t = v \<and> cells w' (cb_cell cb) = Some t"
  by (auto simp: fetch_token_def Let_def split: issuer_outcome.splits)

lemma auth_callback_cells_other:
  "a \<noteq> cb_cell cb \<Longrightarrow> cells (snd (auth_callback cb now g w)) a = cells w a"
  by (simp add: auth_callback_def fetch_token_def Let_def
           split: option.split issuer_outcome.split)






section \<open>The closures of a request\<close>







lemma chat_closures:
  "ch_ad_token_provider (fst (chat message env w)) =
     \<lparr>cb_scope = ''https://cognitiveservices.azure.com/.default'', cb_cell = next_cell w\<rparr>"
  "ch_auth_callback (fst (chat message env w)) =
     \<lparr>cb_scope = ''https://dynamicsessions.io/.default'', cb_cell = Suc (next_cell w)\<rparr>"
  by (simp_all add: chat_def auth_callback_factory_def add_function_def Let_def split_beta)




section \<open>Properties of the tool schema\<close>

lemma find_app:
  "find P (xs @ ys) = (case find P xs of None \<Rightarrow> find P ys | Some x \<Rightarrow> Some x)"
  by (induction xs) auto

lemma comprehension_filter:
  "concat (map (\<lambda>x. if P x then [g x] else []) xs) = map g (filter P xs)"
  by (induction xs) auto

lemma map_of_foldl_update:
  "map_of (foldl (\<lambda>d p. AList.update (p_name p) (param_schema p) d) d0 ps) n =
     (case find (\<lambda>p. p_name p = n) (rev ps) of
        None \<Rightarrow> map_of d0 n
      | Some p \<Rightarrow> Some (param_schema p))"
proof (induction ps arbitrary: d0)
  case Nil
  then show ?case by simp
next
  case (Cons p ps)
  show ?case
    by (simp add: Cons.IH update_conv' find_app split: option.split)
qed

lemma properties_of_lookup:
  "map_of (properties_of ps) n = map_option param_schema (find (\<lambda>p. p_name p = n) (rev ps))"
  by (simp add: properties_of_def map_of_foldl_update split: option.split)

lemma truthy_iff: "truthy b = (b = Some True)"
  by (cases b) (auto simp: truthy_def)

lemma required_of_filter:
  "required_of ps = map p_name (filter (\<lambda>p. p_is_required p = Some True) ps)"
  by (simp add: required_of_def comprehension_filter truthy_iff)

lemma json_schema_type_table:
  "json_schema_type (Some ''str'') = ''string''"
  "json_schema_type (Some ''int'') = ''integer''"
  "json_schema_type (Some ''float'') = ''number''"
  "json_schema_type (Some ''bool'') = ''boolean''"
  "json_schema_type (Some ''list'') = ''array''"
  "json_schema_type (Some ''dict'') = ''object''"
  "json_schema_type None = ''string''"
  by (simp_all add: json_schema_type_def python_to_json_schema_type_def)

lemma json_schema_type_default:
  "t \<notin> {''str'', ''int'', ''float'', ''bool'', ''list'', ''dict''} \<Longrightarrow>
   json_schema_type (Some t) = ''string''"
  by (simp add: json_schema_type_def python_to_json_schema_type_def)

lemma tools_of_callback:
  "tools (update_settings_callback \<lparr>available_functions = Some fs\<rparr> s ty) = Some (map tool_schema fs)"
  "tools (update_settings_callback \<lparr>available_functions = None\<rparr> s ty) = Some []"
  by (simp_all add: update_settings_callback_def)

lemma example_schema:
  "tool_schema \<lparr>f_name = nm, f_plugin_name = pl, f_description = d,
      f_parameters = [\<lparr>p_name = ''n'', p_description = dn, p_type = Some ''int'',
                       p_is_required = Some True\<rparr>,
                      \<lparr>p_name = ''s'', p_description = ds, p_type = Some ''str'',
                       p_is_required = Some False\<rparr>]\<rparr>
   = JObject
       [(''type'', JString ''function''),
        (''function'', JObject
           [(''name'', JString nm),
            (''description'', JString (or_empty d)),
            (''parameters'', JObject
               [(''type'', JString ''object''),
                (''properties'', JObject
                   [(''n'', JObject [(''type'', JString ''integer''),
                                     (''description'', JString (or_empty dn))]),
                    (''s'', JObject [(''type'', JString ''string''),
                                     (''description'', JString (or_empty ds))])]),
                (''required'', JArray [JString ''n''])])])]"
  by (simp add: tool_schema_def properties_of_def required_of_def truthy_def param_schema_def
        json_schema_type_table)

lemma path_required:
  "json_path (tool_schema f) [''function'', ''parameters'', ''required'']
     = Some (JArray (map JString (required_of (f_parameters f))))"
  by (simp add: tool_schema_def)

lemma path_properties:
  "json_path (tool_schema f) [''function'', ''parameters'', ''properties'']
     = Some (JObject (properties_of (f_parameters f)))"
  by (simp add: tool_schema_def)

lemma path_description:
  "json_path (tool_schema f) [''function'', ''description'']
     = Some (JString (or_empty (f_description f)))"
  by (simp add: tool_schema_def)

lemma path_property_type:
  "json_path (tool_schema f) [''function'', ''parameters'', ''properties'', n, ''type'']
     = map_option (\<lambda>p. JString (json_schema_type (p_type p)))
         (find (\<lambda>p. p_name p = n) (rev (f_parameters f)))"
  by (simp add: tool_schema_def properties_of_lookup param_schema_def split: option.split)

lemma path_property_description:
  "json_path (tool_schema f) [''function'', ''parameters'', ''properties'', n, ''description'']
     = map_option (\<lambda>p. JString (or_empty (p_description p)))
         (find (\<lambda>p. p_name p = n) (rev (f_parameters f)))"
  by (simp add: tool_schema_def properties_of_lookup param_schema_def split: option.split)

lemma get_list_filter:
  "get_list_of_function_metadata [(''excluded_plugins'', excluded)] kern
     = filter (\<lambda>f. f_plugin_name f \<notin> set excluded) kern"
  using comprehension_filter [of "\<lambda>f. f_plugin_name f \<notin> set excluded" "\<lambda>f. f" kern]
  by (simp add: get_list_of_function_metadata_def)

lemma configure_tools:
  "tools (configure (Auto ai flt) kern update_settings_callback s)
     = Some (map tool_schema (get_list_of_function_metadata flt kern))"
  by (simp add: configure_def Auto_def update_settings_callback_def)

lemma filter_renamed:
  "[f \<leftarrow> map (\<lambda>f. f\<lparr>f_plugin_name := ''SessionsTool''\<rparr>) fs. f_plugin_name f \<noteq> ''ChatBot'']
     = map (\<lambda>f. f\<lparr>f_plugin_name := ''SessionsTool''\<rparr>) fs"
  by (induction fs) auto

lemma chat_kernel:
  "ch_kernel (fst (chat message env w)) =
     map (\<lambda>f. f\<lparr>f_plugin_name := ''SessionsTool''\<rparr>) (env_sessions_tool env)
       @ [ch_chat_function (fst (chat message env w))]"
  "ch_chat_function (fst (chat message env w)) =
     \<lparr>f_name = ''Chat'', f_plugin_name = ''ChatBot'', f_description = None,
      f_parameters = env_prompt_parameters env\<rparr>"
  by (simp_all add: chat_def auth_callback_factory_def add_function_def add_plugin_def
        Let_def split_beta)

lemma chat_settings:
  "ch_settings (fst (chat message env w)) =
     configure (Auto True [(''excluded_plugins'', [''ChatBot''])])
       (ch_kernel (fst (chat message env w))) update_settings_callback
       \<lparr>service_id = ''sessions-tool'', tool_choice = ''auto'', tools = None\<rparr>"
  by (simp add: chat_def auth_callback_factory_def add_function_def add_plugin_def
        Let_def split_beta)

lemma chat_tools:
  "tools (ch_settings (fst (chat message env w))) =
     Some (map tool_schema
             (map (\<lambda>f. f\<lparr>f_plugin_name := ''SessionsTool''\<rparr>) (env_sessions_tool env)))"
  unfolding chat_settings configure_tools
  by (simp add: chat_kernel get_list_filter filter_renamed)

section \<open>The claims about the token cache\<close>




text \<open>
  Claim C4, as amended. The property holds of one getter, that is of one closure made by
  \<open>auth_callback_factory\<close>, not of a scope: a call of the getter that returned a token value
  leaves a token with that value in the slot; a second call of the same getter no later than
  that token's \<open>expires_on\<close> returns the identical value and changes nothing, so the issuer
  is not asked again; a second call of the same getter after \<open>expires_on\<close> asks the issuer
  exactly once more, whatever the issuer answers.
\<close>

theorem auth_callback_twice:
  assumes "auth_callback cb now1 get1 w = (Inr v, w1)"
  shows "\<exists>t. cells w1 (cb_cell cb) = Some t \<and> token t = v
           \<and> (now2 \<le> expires_on t \<longrightarrow> auth_callback cb now2 get2 w1 = (Inr v, w1))
           \<and> (expires_on t < now2 \<longrightarrow>
                issuer_calls (snd (auth_callback cb now2 get2 w1)) = issuer_calls w1 @ [cb_scope cb])"
proof -
  have "\<exists>t. cells w1 (cb_cell cb) = Some t \<and> token t = v"
    using assms
    by (auto simp: auth_callback_def split: option.splits if_splits dest: fetch_token_Inr)
  then obtain t where t: "cells w1 (cb_cell cb) = Some t" "token t = v" by blast
  then show ?thesis
    by (auto simp: auth_callback_def fetch_token_issuer_calls)
qed

theorem auth_callback_twice_witness:
  "auth_callback sample_closure 150 (always (Issued new_token)) (holding old_token)
     = (Inr ''new'', (holding new_token)\<lparr>issuer_calls := [cb_scope sample_closure]\<rparr>)
   \<and> 180 \<le> expires_on new_token
   \<and> auth_callback sample_closure 180 (always (OtherException ''unreachable''))
         ((holding new_token)\<lparr>issuer_calls := [cb_scope sample_closure]\<rparr>)
       = (Inr ''new'', (holding new_token)\<lparr>issuer_calls := [cb_scope sample_closure]\<rparr>)
   \<and> expires_on new_token < 201
   \<and> issuer_calls (snd (auth_callback sample_closure 201 (always (OtherException ''unreachable''))
         ((holding new_token)\<lparr>issuer_calls := [cb_scope sample_closure]\<rparr>)))
       = [cb_scope sample_closure, cb_scope sample_closure]"
proof -
  let ?w1 = "(holding new_token)\<lparr>issuer_calls := [cb_scope sample_closure]\<rparr>"
  have p: "auth_callback sample_closure 150 (always (Issued new_token)) (holding old_token)
             = (Inr ''new'', ?w1)"
    by (simp add: auth_callback_def fetch_token_def holding_def sample_closure_def
          old_token_def new_token_def always_def)
  have c: "cells ?w1 (cb_cell sample_closure) = Some new_token"
    by (simp add: holding_def sample_closure_def)
  have e: "180 \<le> expires_on new_token" "expires_on new_token < 201"
    by (simp_all add: new_token_def)
  from auth_callback_twice [OF p, of 180 "always (OtherException ''unreachable'')"] c e
  have a: "auth_callback sample_closure 180 (always (OtherException ''unreachable'')) ?w1
             = (Inr ''new'', ?w1)"
    by auto
  from auth_callback_twice [OF p, of 201 "always (OtherException ''unreachable'')"] c e
  have b: "issuer_calls (snd (auth_callback sample_closure 201
             (always (OtherException ''unreachable'')) ?w1))
           = [cb_scope sample_closure, cb_scope sample_closure]"
    by auto
  from p e a b show ?thesis by simp
qed

text \<open>
  Claim C4 as stated, for every scope, fails: the two getters above are for the same scope,
  the second call comes at time 20 while the token issued to the first getter is valid until
  3600, and yet the second call returns another token value and the issuer has been asked
  twice.
\<close>

theorem two_getters_of_one_scope_ask_twice:
  "cb_scope (fst first_getter) = cb_scope (fst second_getter)
   \<and> fst first_getter_call = Inr ''t1''
   \<and> cells (snd first_getter_call) (cb_cell (fst first_getter))
       = Some \<lparr>token = ''t1'', expires_on = 3600\<rparr>
   \<and> (20::int) < 3600
   \<and> fst second_getter_call = Inr ''t2''
   \<and> issuer_calls (snd second_getter_call)
       = [''https://dynamicsessions.io/.default'', ''https://dynamicsessions.io/.default'']"
  by (simp add: second_getter_call_def second_getter_def first_getter_call_def first_getter_def
        auth_callback_factory_def auth_callback_def fetch_token_def always_def
        initial_world_def no_tokens_def)

text \<open>
  Claim C8. When the slot is empty or expired and the issuer rejects the request with a
  \<open>ClientAuthenticationError\<close>, the getter fails with a \<open>FunctionExecutionException\<close> whose
  description is the fixed text "Failed to retrieve the client auth token with messages: "
  followed by the issuer's messages joined by single spaces (no messages when the error has no
  \<open>messages\<close> attribute); the issuer has been asked exactly once, so there is no retry, and the
  rest of the state is as before.
\<close>

theorem auth_callback_credential_error:
  assumes "cells w (cb_cell cb) = None \<or> (\<exists>t. cells w (cb_cell cb) = Some t \<and> expires_on t < now)"
    and "get_token (cb_scope cb) = ClientAuthenticationError messages"
  shows "auth_callback cb now get_token w =
           (Inl (FunctionExecutionException
                  (''Failed to retrieve the client auth token with messages: ''
                     @ str_join '' '' (case messages of None \<Rightarrow> [] | Some ms \<Rightarrow> ms))),
            w\<lparr>issuer_calls := issuer_calls w @ [cb_scope cb]\<rparr>)"
  using assms by (auto simp: auth_callback_def fetch_token_def Let_def)

theorem auth_callback_credential_error_witness:
  "(cells (holding old_token) (cb_cell sample_closure) = None
      \<or> (\<exists>t. cells (holding old_token) (cb_cell sample_closure) = Some t \<and> expires_on t < 150))
   \<and> always (ClientAuthenticationError (Some [''bad secret'', ''unknown tenant'']))
        (cb_scope sample_closure)
       = ClientAuthenticationError (Some [''bad secret'', ''unknown tenant''])
   \<and> auth_callback sample_closure 150
        (always (ClientAuthenticationError (Some [''bad secret'', ''unknown tenant''])))
        (holding old_token)
       = (Inl (FunctionExecutionException
                ''Failed to retrieve the client auth token with messages: bad secret unknown tenant''),
          (holding old_token)\<lparr>issuer_calls := [''https://dynamicsessions.io/.default'']\<rparr>)"
proof -
  have h1: "cells (holding old_token) (cb_cell sample_closure) = None
      \<or> (\<exists>t. cells (holding old_token) (cb_cell sample_closure) = Some t \<and> expires_on t < 150)"
    by (simp add: holding_def sample_closure_def old_token_def)
  have h2: "always (ClientAuthenticationError (Some [''bad secret'', ''unknown tenant'']))
        (cb_scope sample_closure)
       = ClientAuthenticationError (Some [''bad secret'', ''unknown tenant''])"
    by (simp add: always_def)
  from auth_callback_credential_error [where cb = sample_closure and now = 150
      and w = "holding old_token"
      and get_token = "always (ClientAuthenticationError (Some [''bad secret'', ''unknown tenant'']))"
      and messages = "Some [''bad secret'', ''unknown tenant'']", OF h1 h2] h1 h2
  show ?thesis
    by (simp add: holding_def sample_closure_def)
qed



section \<open>The claims about the closures of a request\<close>




text \<open>
  Claim C7. A call of the getter of one closure leaves the slot of every other closure as it
  was, and what it returns does not depend on what the other slot holds, so a token cached for
  one scope never answers a request for another. The two closures of a request, for the
  cognitive-services scope and for the dynamic-sessions scope, have different cells.
\<close>

theorem scope_isolation:
  assumes "cb_cell a \<noteq> cb_cell b"
  shows "cells (snd (auth_callback b now g w)) (cb_cell a) = cells w (cb_cell a)
       \<and> fst (auth_callback b now g (w\<lparr>cells := (cells w)(cb_cell a := x)\<rparr>))
           = fst (auth_callback b now g w)
       \<and> cb_scope (ch_ad_token_provider (fst (chat message env w0)))
           = ''https://cognitiveservices.azure.com/.default''
       \<and> cb_scope (ch_auth_callback (fst (chat message env w0)))
           = ''https://dynamicsessions.io/.default''
       \<and> cb_cell (ch_ad_token_provider (fst (chat message env w0)))
           \<noteq> cb_cell (ch_auth_callback (fst (chat message env w0)))"
proof -
  have 1: "cells (snd (auth_callback b now g w)) (cb_cell a) = cells w (cb_cell a)"
    using assms by (rule auth_callback_cells_other)
  have 2: "fst (auth_callback b now g (w\<lparr>cells := (cells w)(cb_cell a := x)\<rparr>))
           = fst (auth_callback b now g w)"
    using assms
    by (simp add: auth_callback_def fetch_token_def Let_def
           split: option.split issuer_outcome.split)
  show ?thesis using 1 2 by (simp add: chat_closures)
qed

theorem scope_isolation_witness:
  "cb_cell sample_closure \<noteq> cb_cell other_closure
   \<and> cells (snd (auth_callback other_closure 150 (always (Issued new_token)) (holding old_token)))
        (cb_cell sample_closure) = cells (holding old_token) (cb_cell sample_closure)
   \<and> fst (auth_callback other_closure 150 (always (Issued new_token))
        ((holding old_token)\<lparr>cells := (cells (holding old_token))(cb_cell sample_closure := None)\<rparr>))
       = fst (auth_callback other_closure 150 (always (Issued new_token)) (holding old_token))
   \<and> cb_cell (ch_ad_token_provider (fst (chat ''hi'' first_request initial_world)))
       \<noteq> cb_cell (ch_auth_callback (fst (chat ''hi'' first_request initial_world)))"
proof -
  have h: "cb_cell sample_closure \<noteq> cb_cell other_closure"
    by (simp add: sample_closure_def other_closure_def)
  from scope_isolation [OF h, of 150 "always (Issued new_token)" "holding old_token" None
         "''hi''" first_request initial_world] h
  show ?thesis by simp
qed

section \<open>The claims about the tool schema\<close>

text \<open>
  Claim C1. For every kernel and every set of excluded plugins, the tool list that
  \<open>configure\<close> sets is built, entry by entry, from the functions listed for the callback, all
  of them registered, and no function whose plugin is excluded is among them. In \<open>chat\<close> the
  entry point is registered under the plugin "ChatBot", the excluded plugins are exactly
  "ChatBot", and the tool list of the request's settings is built from the functions of the
  sessions tool alone.
\<close>

theorem excluded_plugins_absent_from_tools:
  "tools (configure (Auto ai [(''excluded_plugins'', excluded)]) kern update_settings_callback s)
     = Some (map tool_schema
               (get_list_of_function_metadata [(''excluded_plugins'', excluded)] kern))
   \<and> set (get_list_of_function_metadata [(''excluded_plugins'', excluded)] kern) \<subseteq> set kern
   \<and> (\<forall>f. f_plugin_name f \<in> set excluded \<longrightarrow>
          f \<notin> set (get_list_of_function_metadata [(''excluded_plugins'', excluded)] kern))
   \<and> ch_chat_function (fst (chat message env w)) \<in> set (ch_kernel (fst (chat message env w)))
   \<and> f_name (ch_chat_function (fst (chat message env w))) = ''Chat''
   \<and> f_plugin_name (ch_chat_function (fst (chat message env w))) = ''ChatBot''
   \<and> ch_settings (fst (chat message env w)) =
       configure (Auto True [(''excluded_plugins'', [''ChatBot''])])
         (ch_kernel (fst (chat message env w))) update_settings_callback
         \<lparr>service_id = ''sessions-tool'', tool_choice = ''auto'', tools = None\<rparr>
   \<and> tools (ch_settings (fst (chat message env w))) =
       Some (map tool_schema
               (map (\<lambda>f. f\<lparr>f_plugin_name := ''SessionsTool''\<rparr>) (env_sessions_tool env)))"
proof -
  have 1: "set (get_list_of_function_metadata [(''excluded_plugins'', excluded)] kern) \<subseteq> set kern"
    by (auto simp: get_list_filter)
  have 2: "\<forall>f. f_plugin_name f \<in> set excluded \<longrightarrow>
          f \<notin> set (get_list_of_function_metadata [(''excluded_plugins'', excluded)] kern)"
    by (simp add: get_list_filter)
  have 3: "ch_chat_function (fst (chat message env w)) \<in> set (ch_kernel (fst (chat message env w)))"
    by (simp add: chat_kernel(1))
  have 4: "f_name (ch_chat_function (fst (chat message env w))) = ''Chat''"
    "f_plugin_name (ch_chat_function (fst (chat message env w))) = ''ChatBot''"
    by (simp_all add: chat_kernel(2))
  from configure_tools 1 2 3 4 chat_settings chat_tools show ?thesis by blast
qed

theorem excluded_plugins_absent_from_tools_witness:
  "f_plugin_name chat_entry \<in> set [''ChatBot'']
   \<and> chat_entry \<in> set [execute_code, list_files, chat_entry]
   \<and> chat_entry \<notin> set (get_list_of_function_metadata [(''excluded_plugins'', [''ChatBot''])]
                          [execute_code, list_files, chat_entry])
   \<and> tools (configure (Auto True [(''excluded_plugins'', [''ChatBot''])])
              [execute_code, list_files, chat_entry] update_settings_callback
              \<lparr>service_id = ''sessions-tool'', tool_choice = ''auto'', tools = None\<rparr>)
       = Some [tool_schema execute_code, tool_schema list_files]"
proof -
  have h: "f_plugin_name chat_entry \<in> set [''ChatBot'']"
    "chat_entry \<in> set [execute_code, list_files, chat_entry]"
    by (simp_all add: chat_entry_def)
  have l: "get_list_of_function_metadata [(''excluded_plugins'', [''ChatBot''])]
             [execute_code, list_files, chat_entry] = [execute_code, list_files]"
    by (simp add: get_list_filter execute_code_def list_files_def chat_entry_def)
  from excluded_plugins_absent_from_tools [of True "[''ChatBot'']"
         "[execute_code, list_files, chat_entry]"
         "\<lparr>service_id = ''sessions-tool'', tool_choice = ''auto'', tools = None\<rparr>"] h l
  show ?thesis by simp
qed

text \<open>
  Claim C5. The type tag of a parameter is mapped by the table str to string, int to integer,
  float to number, bool to boolean, list to array, dict to object, and to string for a
  missing tag and for every other tag; in the entry of a function the property of a name
  carries the mapped type of the (last) parameter of that name. For every list of functions
  the callback sets a tool list with one entry per function, also when the configuration has
  no list at all, and the list does not depend on the settings it is stored in. The function
  with the parameters n (int, required) and s (str, not required) gets the properties
  n of type integer and s of type string, each with its description, and required ["n"].
\<close>

theorem schema_synthesis_type_table:
  "json_schema_type (Some ''str'') = ''string''
   \<and> json_schema_type (Some ''int'') = ''integer''
   \<and> json_schema_type (Some ''float'') = ''number''
   \<and> json_schema_type (Some ''bool'') = ''boolean''
   \<and> json_schema_type (Some ''list'') = ''array''
   \<and> json_schema_type (Some ''dict'') = ''object''
   \<and> json_schema_type None = ''string''
   \<and> (\<forall>t. t \<notin> {''str'', ''int'', ''float'', ''bool'', ''list'', ''dict''} \<longrightarrow>
          json_schema_type (Some t) = ''string'')
   \<and> json_path (tool_schema f) [''function'', ''parameters'', ''properties'', n, ''type'']
       = map_option (\<lambda>p. JString (json_schema_type (p_type p)))
           (find (\<lambda>p. p_name p = n) (rev (f_parameters f)))
   \<and> tools (update_settings_callback \<lparr>available_functions = Some fs\<rparr> s ty)
       = Some (map tool_schema fs)
   \<and> tools (update_settings_callback \<lparr>available_functions = None\<rparr> s ty) = Some []
   \<and> tools (update_settings_callback config s ty) = tools (update_settings_callback config s' ty')
   \<and> tool_schema \<lparr>f_name = nm, f_plugin_name = pl, f_description = d,
        f_parameters = [\<lparr>p_name = ''n'', p_description = dn, p_type = Some ''int'',
                         p_is_required = Some True\<rparr>,
                        \<lparr>p_name = ''s'', p_description = ds, p_type = Some ''str'',
                         p_is_required = Some False\<rparr>]\<rparr>
       = JObject
           [(''type'', JString ''function''),
            (''function'', JObject
               [(''name'', JString nm),
                (''description'', JString (or_empty d)),
                (''parameters'', JObject
                   [(''type'', JString ''object''),
                    (''properties'', JObject
                       [(''n'', JObject [(''type'', JString ''integer''),
                                         (''description'', JString (or_empty dn))]),
                        (''s'', JObject [(''type'', JString ''string''),
                                         (''description'', JString (or_empty ds))])]),
                    (''required'', JArray [JString ''n''])])])]"
proof -
  have d: "\<forall>t. t \<notin> {''str'', ''int'', ''float'', ''bool'', ''list'', ''dict''} \<longrightarrow>
          json_schema_type (Some t) = ''string''"
    using json_schema_type_default by blast
  have i: "tools (update_settings_callback config s ty) = tools (update_settings_callback config s' ty')"
    by (simp add: update_settings_callback_def)
  from json_schema_type_table d path_property_type [of f n] tools_of_callback(1) [of fs s ty]
    tools_of_callback(2) [of s ty] i example_schema [of nm pl d dn ds]
  show ?thesis
    by (intro conjI) assumption+
qed

theorem schema_synthesis_type_table_witness:
  "''datetime'' \<notin> {''str'', ''int'', ''float'', ''bool'', ''list'', ''dict''}
   \<and> json_schema_type (Some ''datetime'') = ''string''"
proof -
  have h: "''datetime'' \<notin> {''str'', ''int'', ''float'', ''bool'', ''list'', ''dict''}" by simp
  note table = schema_synthesis_type_table [THEN conjunct2, THEN conjunct2, THEN conjunct2,
      THEN conjunct2, THEN conjunct2, THEN conjunct2, THEN conjunct2, THEN conjunct1]
  from table [THEN spec, THEN mp, OF h] h show ?thesis by simp
qed

text \<open>
  Claim C6. In the entry of every function the required list is the names of the parameters
  whose required flag is true, in declaration order; a missing description of the function
  becomes the empty string, and so does a missing description of a parameter in the property
  of its name; a function without parameters gets the empty properties and the empty required
  list.
\<close>

theorem tool_schema_required_and_defaults:
  "json_path (tool_schema f) [''function'', ''parameters'', ''required'']
     = Some (JArray (map JString
         (map p_name (filter (\<lambda>p. p_is_required p = Some True) (f_parameters f)))))
   \<and> (f_description f = None \<longrightarrow>
        json_path (tool_schema f) [''function'', ''description''] = Some (JString []))
   \<and> (\<forall>p. find (\<lambda>q. p_name q = n) (rev (f_parameters f)) = Some p \<and> p_description p = None \<longrightarrow>
        json_path (tool_schema f) [''function'', ''parameters'', ''properties'', n, ''description'']
          = Some (JString []))
   \<and> (f_parameters f = [] \<longrightarrow>
        json_path (tool_schema f) [''function'', ''parameters'', ''properties''] = Some (JObject [])
        \<and> json_path (tool_schema f) [''function'', ''parameters'', ''required''] = Some (JArray []))"
proof -
  have 1: "json_path (tool_schema f) [''function'', ''parameters'', ''required'']
     = Some (JArray (map JString
         (map p_name (filter (\<lambda>p. p_is_required p = Some True) (f_parameters f)))))"
    by (simp only: path_required required_of_filter)
  have 2: "f_description f = None \<longrightarrow>
        json_path (tool_schema f) [''function'', ''description''] = Some (JString [])"
    by (simp only: path_description) (simp add: or_empty_def)
  have 3: "\<forall>p. find (\<lambda>q. p_name q = n) (rev (f_parameters f)) = Some p \<and> p_description p = None \<longrightarrow>
        json_path (tool_schema f) [''function'', ''parameters'', ''properties'', n, ''description'']
          = Some (JString [])"
    by (simp only: path_property_description) (simp add: or_empty_def)
  have 4: "f_parameters f = [] \<longrightarrow>
        json_path (tool_schema f) [''function'', ''parameters'', ''properties''] = Some (JObject [])
        \<and> json_path (tool_schema f) [''function'', ''parameters'', ''required''] = Some (JArray [])"
    by (simp only: path_properties path_required) (simp add: properties_of_def required_of_def)
  from 1 2 3 4 show ?thesis by blast
qed

theorem tool_schema_required_and_defaults_witness:
  "f_description list_files = None
   \<and> json_path (tool_schema list_files) [''function'', ''description''] = Some (JString [])
   \<and> f_parameters list_files = []
   \<and> json_path (tool_schema list_files) [''function'', ''parameters'', ''properties'']
       = Some (JObject [])
   \<and> json_path (tool_schema list_files) [''function'', ''parameters'', ''required'']
       = Some (JArray [])
   \<and> find (\<lambda>q. p_name q = ''code'') (rev (f_parameters execute_code))
       = Some \<lparr>p_name = ''code'', p_description = None, p_type = Some ''str'',
               p_is_required = Some True\<rparr>
   \<and> json_path (tool_schema execute_code)
        [''function'', ''parameters'', ''properties'', ''code'', ''description'']
       = Some (JString [])
   \<and> json_path (tool_schema execute_code) [''function'', ''parameters'', ''required'']
       = Some (JArray [JString ''code''])"
proof -
  have h: "f_description list_files = None" "f_parameters list_files = []"
    by (simp_all add: list_files_def)
  have e: "find (\<lambda>q. p_name q = ''code'') (rev (f_parameters execute_code))
       = Some \<lparr>p_name = ''code'', p_description = None, p_type = Some ''str'',
               p_is_required = Some True\<rparr>"
    "f_parameters execute_code = [\<lparr>p_name = ''code'', p_description = None, p_type = Some ''str'',
               p_is_required = Some True\<rparr>]"
    by (simp_all add: execute_code_def)
  from tool_schema_required_and_defaults [of list_files]
    tool_schema_required_and_defaults [of execute_code "''code''"] h e
  show ?thesis by simp
qed

section \<open>The claim about the root path\<close>

text \<open>
  Claim C9, as amended. The handler registered for GET on the path "/" returns a redirect to
  "/docs" with the status code that \<open>RedirectResponse\<close> takes when none is passed, which is
  307.
\<close>

theorem root_redirects_to_docs:
  "map_of app_routes (''GET'', ''/'') = Some RootEndpoint
   \<and> root = \<lparr>status_code = 307, location = ''/docs''\<rparr>"
  by (simp add: app_routes_def root_def RedirectResponse_def)

text \<open>Claim C9 as stated fails: the status code of the response is not 302.\<close>

theorem root_status_is_not_302:
  "status_code root \<noteq> 302"
  by (simp add: root_def RedirectResponse_def)

end
